theory Spec2Isabelle
  imports Main "HOL-Library.Word"
begin

section \<open>The SparkFun CC3000 facade (SFE_CC3000.cpp)\<close>

text \<open>
  The source is one C++ class, \<^verbatim>\<open>SFE_CC3000\<close>, with a single private field
  \<^verbatim>\<open>is_initialized_\<close>, four file-level globals (\<^verbatim>\<open>g_int_pin\<close>, \<^verbatim>\<open>g_int_num\<close>,
  \<^verbatim>\<open>g_en_pin\<close>, \<^verbatim>\<open>g_cs_pin\<close>) and four methods. The methods talk to the Arduino
  core (\<^verbatim>\<open>pinMode\<close>, \<^verbatim>\<open>digitalWrite\<close>, \<^verbatim>\<open>SPI\<close>, \<^verbatim>\<open>delay\<close>) and to the TI driver
  (\<^verbatim>\<open>wlan_init\<close>, \<^verbatim>\<open>wlan_start\<close>, \<^verbatim>\<open>nvmem_read_sp_version\<close>,
  \<^verbatim>\<open>nvmem_get_mac_address\<close>). The model passes the state explicitly: the object,
  and a machine holding the globals and the log of every call the file makes
  to the Arduino core and to the driver, oldest first. \<^verbatim>\<open>DEBUG\<close> is 0 in
  common.h, so the diagnostic prints are compiled out.
\<close>

subsection \<open>Data\<close>

type_synonym uint8_t = "8 word"

text \<open>The compile-time target: the four macros tested at line 115, or anything else.\<close>

datatype mcu = AVR_ATmega8 | AVR_ATmega168 | AVR_ATmega328P | AVR_ATmega328 | Other_mcu

fun supported_mcu :: "mcu \<Rightarrow> bool" where
  "supported_mcu AVR_ATmega8 = True"
| "supported_mcu AVR_ATmega168 = True"
| "supported_mcu AVR_ATmega328P = True"
| "supported_mcu AVR_ATmega328 = True"
| "supported_mcu Other_mcu = False"

text \<open>The Arduino constants the file passes, by name.\<close>

datatype pin_mode = INPUT | OUTPUT

datatype pin_level = LOW | HIGH

datatype spi_data_mode = SPI_MODE0 | SPI_MODE1 | SPI_MODE2 | SPI_MODE3

datatype spi_bit_order = LSBFIRST | MSBFIRST

datatype spi_clock_div =
  SPI_CLOCK_DIV2 | SPI_CLOCK_DIV4 | SPI_CLOCK_DIV8 | SPI_CLOCK_DIV16
  | SPI_CLOCK_DIV32 | SPI_CLOCK_DIV64 | SPI_CLOCK_DIV128

definition SPI_CLK_DIV :: spi_clock_div where
  "SPI_CLK_DIV = SPI_CLOCK_DIV2"

text \<open>The callbacks handed to \<^verbatim>\<open>wlan_init\<close>, by name (lines 151 to 158).\<close>

datatype callback =
  cc3000AsyncCallback | sendFirmwarePatch | sendDriverPatch | sendBootLoaderPatch
  | readWlanInterruptPin | enableWlanInterrupt | disableWlanInterrupt | writeWlanPin

text \<open>One entry of the log per call that leaves the file.\<close>

datatype hw_call =
  PinMode uint8_t pin_mode
  | DigitalWrite uint8_t pin_level
  | SPI_begin
  | SPI_setDataMode spi_data_mode
  | SPI_setBitOrder spi_bit_order
  | SPI_setClockDivider spi_clock_div
  | Wlan_init "callback list"
  | Delay "32 word"
  | Wlan_start "16 word"
  | Nvmem_read_sp_version
  | Nvmem_get_mac_address

record machine =
  g_int_pin :: uint8_t
  g_int_num :: uint8_t
  g_en_pin :: uint8_t
  g_cs_pin :: uint8_t
  calls :: "hw_call list"

text \<open>
  The object. Its field is \<^verbatim>\<open>is_initialized_\<close> in the source; a name cannot end in
  an underscore here.
\<close>

record SFE_CC3000 =
  is_initialized :: bool

text \<open>
  What the TI driver answers. Its declarations (utility/wlan.h, utility/nvmem.h)
  are not part of the file, so the answers are parameters: what \<^verbatim>\<open>wlan_init\<close>
  and \<^verbatim>\<open>wlan_start\<close> report (the file calls both as statements and drops
  whatever they report), the status codes of the two queries, and the bytes
  the queries store through the pointer they are given. The driver calls are
  taken to return.
\<close>

record driver =
  wlan_init_outcome :: int
  wlan_start_outcome :: int
  sp_version_status :: int
  sp_version_major :: uint8_t
  sp_version_minor :: uint8_t
  mac_address_status :: int
  mac_address_byte :: "nat \<Rightarrow> uint8_t"

definition CC3000_SUCCESS :: int where
  "CC3000_SUCCESS = 0"

subsection \<open>Calls that leave the file\<close>

definition hw :: "hw_call \<Rightarrow> machine \<Rightarrow> machine" where
  "hw c s = s\<lparr>calls := calls s @ [c]\<rparr>"

definition pinMode :: "uint8_t \<Rightarrow> pin_mode \<Rightarrow> machine \<Rightarrow> machine" where
  "pinMode p m = hw (PinMode p m)"

definition digitalWrite :: "uint8_t \<Rightarrow> pin_level \<Rightarrow> machine \<Rightarrow> machine" where
  "digitalWrite p v = hw (DigitalWrite p v)"

definition wlan_init :: "driver \<Rightarrow> callback list \<Rightarrow> machine \<Rightarrow> machine" where
  "wlan_init drv cbs = hw (Wlan_init cbs)"

definition delay :: "32 word \<Rightarrow> machine \<Rightarrow> machine" where
  "delay ms = hw (Delay ms)"

definition wlan_start :: "driver \<Rightarrow> 16 word \<Rightarrow> machine \<Rightarrow> machine" where
  "wlan_start drv patches = hw (Wlan_start patches)"

text \<open>
  Modelled from the spec: \<^verbatim>\<open>nvmem_read_sp_version\<close> (utility/nvmem.c is missing).
  The spec gives the query a status code, 0 for success, and a 2-byte version
  record (major, minor) on success. The result is the status, the bytes stored
  through the pointer from index 0 on, and the machine with the call logged. On
  a non-zero status the spec fixes nothing about the bytes; here they are the
  driver's two values all the same.
\<close>

definition nvmem_read_sp_version :: "driver \<Rightarrow> machine \<Rightarrow> int \<times> uint8_t list \<times> machine" where
  "nvmem_read_sp_version drv s =
     (sp_version_status drv, [sp_version_major drv, sp_version_minor drv],
      hw Nvmem_read_sp_version s)"

text \<open>
  Modelled from the spec: \<^verbatim>\<open>nvmem_get_mac_address\<close> (utility/nvmem.c is missing).
  Same status convention; a 6-byte address on success.
\<close>

definition nvmem_get_mac_address :: "driver \<Rightarrow> machine \<Rightarrow> int \<times> uint8_t list \<times> machine" where
  "nvmem_get_mac_address drv s =
     (mac_address_status drv, map (mac_address_byte drv) [0..<6],
      hw Nvmem_get_mac_address s)"

subsection \<open>The class\<close>

text \<open>
  The constructor (lines 73 to 87) clears the flag and stores the three pins in
  the globals; \<^verbatim>\<open>g_int_num\<close> and the log are left alone.
\<close>

definition SFE_CC3000_ctor ::
  "uint8_t \<Rightarrow> uint8_t \<Rightarrow> uint8_t \<Rightarrow> machine \<Rightarrow> SFE_CC3000 \<times> machine" where
  "SFE_CC3000_ctor int_pin en_pin cs_pin s =
     (\<lparr>is_initialized = False\<rparr>,
      s\<lparr>g_int_pin := int_pin, g_en_pin := en_pin, g_cs_pin := cs_pin\<rparr>)"

text \<open>Lines 138 to 164 of \<^verbatim>\<open>init\<close>: pins, SPI, driver, in program order.\<close>

definition init_hardware :: "driver \<Rightarrow> machine \<Rightarrow> machine" where
  "init_hardware drv s0 =
     (let s1 = pinMode (g_int_pin s0) INPUT s0;
          s2 = pinMode (g_en_pin s1) OUTPUT s1;
          s3 = pinMode (g_cs_pin s2) OUTPUT s2;
          s4 = digitalWrite (g_en_pin s3) LOW s3;
          s5 = digitalWrite (g_cs_pin s4) LOW s4;
          s6 = hw SPI_begin s5;
          s7 = hw (SPI_setDataMode SPI_MODE1) s6;
          s8 = hw (SPI_setBitOrder MSBFIRST) s7;
          s9 = hw (SPI_setClockDivider SPI_CLK_DIV) s8;
          s10 = wlan_init drv
                  [cc3000AsyncCallback, sendFirmwarePatch, sendDriverPatch,
                   sendBootLoaderPatch, readWlanInterruptPin, enableWlanInterrupt,
                   disableWlanInterrupt, writeWlanPin] s9;
          s11 = delay 100 s10;
          s12 = wlan_start drv 0 s11
      in s12)"

text \<open>
  \<^verbatim>\<open>init\<close> (lines 102 to 169). The result is the returned bool, the object and
  the machine. On a target outside the four macros the \<^verbatim>\<open>#else\<close> branch returns
  false at once.
\<close>

definition init :: "mcu \<Rightarrow> driver \<Rightarrow> SFE_CC3000 \<Rightarrow> machine \<Rightarrow> bool \<times> SFE_CC3000 \<times> machine" where
  "init target drv this s =
     (if is_initialized this then (True, this, s)
      else if supported_mcu target then
        (if g_int_pin s = 2 then
           (True, this\<lparr>is_initialized := True\<rparr>, init_hardware drv (s\<lparr>g_int_num := 0\<rparr>))
         else if g_int_pin s = 3 then
           (True, this\<lparr>is_initialized := True\<rparr>, init_hardware drv (s\<lparr>g_int_num := 1\<rparr>))
         else (False, this, s))
      else (False, this, s))"

text \<open>
  \<^verbatim>\<open>getFirmwareVersion\<close> (lines 177 to 190) and \<^verbatim>\<open>getMacAddress\<close> (lines 198 to
  211). The result is the returned bool, the bytes stored through the pointer
  argument from index 0 on (none when the driver is not called), and the machine.
\<close>

definition getFirmwareVersion ::
  "driver \<Rightarrow> SFE_CC3000 \<Rightarrow> machine \<Rightarrow> bool \<times> uint8_t list \<times> machine" where
  "getFirmwareVersion drv this s =
     (if \<not> is_initialized this then (False, [], s)
      else case nvmem_read_sp_version drv s of
        (status, fw_ver, s') \<Rightarrow>
          if status \<noteq> CC3000_SUCCESS then (False, fw_ver, s') else (True, fw_ver, s'))"

definition getMacAddress ::
  "driver \<Rightarrow> SFE_CC3000 \<Rightarrow> machine \<Rightarrow> bool \<times> uint8_t list \<times> machine" where
  "getMacAddress drv this s =
     (if \<not> is_initialized this then (False, [], s)
      else case nvmem_get_mac_address drv s of
        (status, mac_addr, s') \<Rightarrow>
          if status \<noteq> CC3000_SUCCESS then (False, mac_addr, s') else (True, mac_addr, s'))"

text \<open>\<^verbatim>\<open>connect\<close> (lines 222 to 225): the body is \<^verbatim>\<open>return true;\<close>.\<close>

definition connect ::
  "string \<Rightarrow> string \<Rightarrow> uint8_t \<Rightarrow> SFE_CC3000 \<Rightarrow> machine \<Rightarrow> bool \<times> SFE_CC3000 \<times> machine" where
  "connect ssid password sec this s = (True, this, s)"

subsection \<open>Sequences of method calls on one object\<close>

datatype method_call =
  Call_init driver
  | Call_getFirmwareVersion driver
  | Call_getMacAddress driver
  | Call_connect string string uint8_t

fun is_init_call :: "method_call \<Rightarrow> bool" where
  "is_init_call (Call_init drv) = True"
| "is_init_call c = False"

fun step :: "mcu \<Rightarrow> method_call \<Rightarrow> SFE_CC3000 \<times> machine \<Rightarrow> SFE_CC3000 \<times> machine" where
  "step target (Call_init drv) (this, s) = snd (init target drv this s)"
| "step target (Call_getFirmwareVersion drv) (this, s) =
     (this, snd (snd (getFirmwareVersion drv this s)))"
| "step target (Call_getMacAddress drv) (this, s) =
     (this, snd (snd (getMacAddress drv this s)))"
| "step target (Call_connect ssid password sec) (this, s) =
     snd (connect ssid password sec this s)"

fun run :: "mcu \<Rightarrow> method_call list \<Rightarrow> SFE_CC3000 \<times> machine \<Rightarrow> SFE_CC3000 \<times> machine" where
  "run target [] c = c"
| "run target (x # xs) c = run target xs (step target x c)"

subsection \<open>Several objects on one machine\<close>

text \<open>
  The flag belongs to an object; the pins and \<^verbatim>\<open>g_int_num\<close> are globals of the
  file, shared by every object of the class. A program is a list of actions:
  the construction of the object numbered \<open>h\<close>, or a method call on it. Every
  constructor writes the three pin globals, whichever object it builds.
\<close>

type_synonym world = "(nat \<Rightarrow> SFE_CC3000) \<times> machine"

datatype action =
  Construct nat uint8_t uint8_t uint8_t
  | Method nat method_call

fun is_construct :: "action \<Rightarrow> bool" where
  "is_construct (Construct h int_pin en_pin cs_pin) = True"
| "is_construct (Method h x) = False"

fun is_init_on :: "nat \<Rightarrow> action \<Rightarrow> bool" where
  "is_init_on h (Method h' x) = (h' = h \<and> is_init_call x)"
| "is_init_on h (Construct h' int_pin en_pin cs_pin) = False"

fun act :: "mcu \<Rightarrow> action \<Rightarrow> world \<Rightarrow> world" where
  "act target (Construct h int_pin en_pin cs_pin) (objs, s) =
     (objs(h := fst (SFE_CC3000_ctor int_pin en_pin cs_pin s)),
      snd (SFE_CC3000_ctor int_pin en_pin cs_pin s))"
| "act target (Method h x) (objs, s) =
     (objs(h := fst (step target x (objs h, s))), snd (step target x (objs h, s)))"

fun exec :: "mcu \<Rightarrow> action list \<Rightarrow> world \<Rightarrow> world" where
  "exec target [] w = w"
| "exec target (a # as) w = exec target as (act target a w)"

text \<open>The argument lists of the \<^verbatim>\<open>wlan_init\<close> calls in a log.\<close>

fun wlan_init_args :: "hw_call list \<Rightarrow> callback list list" where
  "wlan_init_args [] = []"
| "wlan_init_args (Wlan_init cbs # cs) = cbs # wlan_init_args cs"
| "wlan_init_args (c # cs) = wlan_init_args cs"

text \<open>The twelve calls of a bring-up, for the pins in the globals.\<close>

definition bring_up_calls :: "machine \<Rightarrow> hw_call list" where
  "bring_up_calls s =
     [PinMode (g_int_pin s) INPUT, PinMode (g_en_pin s) OUTPUT, PinMode (g_cs_pin s) OUTPUT,
      DigitalWrite (g_en_pin s) LOW, DigitalWrite (g_cs_pin s) LOW,
      SPI_begin, SPI_setDataMode SPI_MODE1, SPI_setBitOrder MSBFIRST,
      SPI_setClockDivider SPI_CLOCK_DIV2,
      Wlan_init [cc3000AsyncCallback, sendFirmwarePatch, sendDriverPatch,
                 sendBootLoaderPatch, readWlanInterruptPin, enableWlanInterrupt,
                 disableWlanInterrupt, writeWlanPin],
      Delay 100, Wlan_start 0]"

subsection \<open>Example inputs\<close>

text \<open>
  The machine at power-on (C++ zero-initialises the four globals), a driver whose
  queries succeed, one whose calls all report errors, the object of the spec's
  scenario (interrupt 2, enable 7, chip select 10) and the same object after a
  successful \<^verbatim>\<open>init\<close> on an ATmega328P.
\<close>

definition power_on :: machine where
  "power_on = \<lparr>g_int_pin = 0, g_int_num = 0, g_en_pin = 0, g_cs_pin = 0, calls = []\<rparr>"

definition example_driver :: driver where
  "example_driver =
     \<lparr>wlan_init_outcome = 0, wlan_start_outcome = 0,
      sp_version_status = 0, sp_version_major = 1, sp_version_minor = 24,
      mac_address_status = 0, mac_address_byte = (\<lambda>i. of_nat (i + 8))\<rparr>"

definition failing_driver :: driver where
  "failing_driver =
     \<lparr>wlan_init_outcome = - 1, wlan_start_outcome = - 1,
      sp_version_status = 4, sp_version_major = 0, sp_version_minor = 0,
      mac_address_status = 255, mac_address_byte = (\<lambda>i. 0)\<rparr>"

definition fresh_example :: "SFE_CC3000 \<times> machine" where
  "fresh_example = SFE_CC3000_ctor 2 7 10 power_on"

definition ready_example :: "SFE_CC3000 \<times> machine" where
  "ready_example =
     snd (init AVR_ATmega328P example_driver (fst fresh_example) (snd fresh_example))"

text \<open>An object table for a program that has constructed nothing yet.\<close>

definition no_objects :: "nat \<Rightarrow> SFE_CC3000" where
  "no_objects = (\<lambda>h. \<lparr>is_initialized = False\<rparr>)"

section \<open>Properties\<close>

subsection \<open>Shared lemmas\<close>

lemma init_hardware_eq:
  "init_hardware drv s = s\<lparr>calls := calls s @ bring_up_calls s\<rparr>"
  by (simp add: init_hardware_def bring_up_calls_def pinMode_def digitalWrite_def
      wlan_init_def delay_def wlan_start_def hw_def SPI_CLK_DIV_def Let_def)

lemma init_success_initialized:
  "fst (init target drv this s) \<Longrightarrow> is_initialized (fst (snd (init target drv this s)))"
  by (simp add: init_def split: if_splits)

lemma init_when_initialized:
  "is_initialized this \<Longrightarrow> init target drv this s = (True, this, s)"
  by (simp add: init_def)

lemma step_keeps_initialized:
  "is_initialized (fst c) \<Longrightarrow> is_initialized (fst (step target x c))"
  by (cases c; cases x) (simp_all add: init_def connect_def)

lemma run_keeps_initialized:
  "is_initialized (fst c) \<Longrightarrow> is_initialized (fst (run target xs c))"
  by (induction xs arbitrary: c) (simp_all add: step_keeps_initialized)

lemma step_not_initialized:
  "\<not> is_initialized (fst c) \<Longrightarrow> \<not> is_init_call x \<Longrightarrow> step target x c = c"
  by (cases c; cases x) (simp_all add: getFirmwareVersion_def getMacAddress_def connect_def)

lemma step_other_pin:
  "\<not> is_initialized (fst c) \<Longrightarrow> g_int_pin (snd c) \<noteq> 2 \<Longrightarrow> g_int_pin (snd c) \<noteq> 3
     \<Longrightarrow> step target x c = c"
  by (cases c; cases x)
    (simp_all add: init_def getFirmwareVersion_def getMacAddress_def connect_def)

lemma run_append: "run target (xs @ ys) c = run target ys (run target xs c)"
  by (induction xs arbitrary: c) simp_all

lemma init_fresh_success:
  assumes "\<not> is_initialized this" and "fst (init target drv this s)"
  shows "supported_mcu target \<and> (g_int_pin s = 2 \<or> g_int_pin s = 3)
    \<and> init target drv this s =
        (True, this\<lparr>is_initialized := True\<rparr>,
         s\<lparr>g_int_num := (if g_int_pin s = 2 then 0 else 1),
           calls := calls s @ bring_up_calls s\<rparr>)"
  using assms by (simp add: init_def init_hardware_eq bring_up_calls_def split: if_splits)

lemma init_failure:
  "\<not> fst (init target drv this s) \<Longrightarrow> init target drv this s = (False, this, s)"
  by (simp add: init_def split: if_splits)

lemma first_successful_init:
  "\<not> is_initialized (fst c) \<Longrightarrow> is_initialized (fst (run target xs c)) \<Longrightarrow>
     \<exists>pre drv post. xs = pre @ Call_init drv # post \<and> run target pre c = c
        \<and> fst (init target drv (fst c) (snd c))"
proof (induction xs arbitrary: c)
  case Nil
  then show ?case by simp
next
  case (Cons x xs)
  show ?case
  proof (cases "is_initialized (fst (step target x c))")
    case True
    obtain this s where c: "c = (this, s)" by (cases c)
    from True Cons.prems(1) obtain drv where x: "x = Call_init drv"
      unfolding c by (cases x) (simp_all add: connect_def)
    have "fst (init target drv (fst c) (snd c))"
    proof (rule ccontr)
      assume "\<not> fst (init target drv (fst c) (snd c))"
      then have "init target drv (fst c) (snd c) = (False, fst c, snd c)"
        by (rule init_failure)
      then have "step target x c = c"
        unfolding x c by simp
      with True Cons.prems(1) show False by simp
    qed
    then have "x # xs = [] @ Call_init drv # xs \<and> run target [] c = c
        \<and> fst (init target drv (fst c) (snd c))"
      using x by simp
    then show ?thesis by blast
  next
    case False
    obtain this s where c: "c = (this, s)" by (cases c)
    have same: "step target x c = c"
    proof (cases x)
      case (Call_init drv)
      from False have "\<not> fst (init target drv this s)"
        unfolding Call_init c using init_success_initialized [of target drv this s] by auto
      then show ?thesis
        unfolding Call_init c by (simp add: init_failure)
    next
      case (Call_getFirmwareVersion drv)
      then show ?thesis using Cons.prems(1) by (simp add: step_not_initialized)
    next
      case (Call_getMacAddress drv)
      then show ?thesis using Cons.prems(1) by (simp add: step_not_initialized)
    next
      case (Call_connect a b d)
      then show ?thesis using Cons.prems(1) by (simp add: step_not_initialized)
    qed
    from Cons.prems(2) have "is_initialized (fst (run target xs c))"
      by (simp add: same)
    with Cons.IH [OF Cons.prems(1)] obtain pre drv post where
      h: "xs = pre @ Call_init drv # post" "run target pre c = c"
         "fst (init target drv (fst c) (snd c))"
      by blast
    have "x # xs = (x # pre) @ Call_init drv # post \<and> run target (x # pre) c = c
        \<and> fst (init target drv (fst c) (snd c))"
      using h same by simp
    then show ?thesis by blast
  qed
qed

lemma fresh_example_eq:
  "fresh_example =
     (\<lparr>is_initialized = False\<rparr>,
      \<lparr>g_int_pin = 2, g_int_num = 0, g_en_pin = 7, g_cs_pin = 10, calls = []\<rparr>)"
  by (simp add: fresh_example_def SFE_CC3000_ctor_def power_on_def)

lemma ready_example_eq:
  "ready_example =
     (\<lparr>is_initialized = True\<rparr>,
      \<lparr>g_int_pin = 2, g_int_num = 0, g_en_pin = 7, g_cs_pin = 10,
       calls = bring_up_calls (snd fresh_example)\<rparr>)"
  by (simp add: ready_example_def fresh_example_eq init_def init_hardware_eq)

lemma init_fresh_example: "fst (init AVR_ATmega328P example_driver (fst fresh_example) (snd fresh_example))"
  by (simp add: fresh_example_eq init_def)

lemma exec_append: "exec target (as @ bs) w = exec target bs (exec target as w)"
  by (induction as arbitrary: w) simp_all

lemma init_keeps_int_pin: "g_int_pin (snd (snd (init target drv this s))) = g_int_pin s"
  by (simp add: init_def init_hardware_eq)

lemma step_keeps_int_pin: "g_int_pin (snd (step target x c)) = g_int_pin (snd c)"
  by (cases c; cases x)
    (simp_all add: init_keeps_int_pin getFirmwareVersion_def getMacAddress_def
      nvmem_read_sp_version_def nvmem_get_mac_address_def hw_def connect_def)

lemma act_keeps_int_pin:
  "\<not> is_construct a \<Longrightarrow> g_int_pin (snd (act target a w)) = g_int_pin (snd w)"
  by (cases w; cases a) (simp_all add: step_keeps_int_pin)

lemma act_other_pin:
  assumes "\<not> is_construct a" and "\<not> is_initialized (fst w h)"
    and "g_int_pin (snd w) \<noteq> 2" and "g_int_pin (snd w) \<noteq> 3"
  shows "\<not> is_initialized (fst (act target a w) h)"
proof (cases a)
  case (Construct h' ip ep cp)
  with assms(1) show ?thesis by simp
next
  case (Method h' x)
  obtain objs s where w: "w = (objs, s)" by (cases w)
  show ?thesis
  proof (cases "h' = h")
    case True
    have "step target x (objs h, s) = (objs h, s)"
      using assms(2,3,4) unfolding w by (simp add: step_other_pin)
    then show ?thesis
      using assms(2) unfolding Method w True by simp
  next
    case False
    then show ?thesis
      using assms(2) unfolding Method w by simp
  qed
qed

lemma exec_other_pin:
  assumes "list_all (\<lambda>a. \<not> is_construct a) as" and "\<not> is_initialized (fst w h)"
    and "g_int_pin (snd w) \<noteq> 2" and "g_int_pin (snd w) \<noteq> 3"
  shows "\<not> is_initialized (fst (exec target as w) h)
     \<and> g_int_pin (snd (exec target as w)) = g_int_pin (snd w)"
  using assms
proof (induction as arbitrary: w)
  case Nil
  then show ?case by simp
next
  case (Cons a as)
  have na: "\<not> is_construct a" and nas: "list_all (\<lambda>a. \<not> is_construct a) as"
    using Cons.prems(1) by simp_all
  have pin: "g_int_pin (snd (act target a w)) = g_int_pin (snd w)"
    using na by (rule act_keeps_int_pin)
  have flag: "\<not> is_initialized (fst (act target a w) h)"
    using na Cons.prems(2,3,4) by (rule act_other_pin)
  show ?case
    using Cons.IH [OF nas flag] Cons.prems(3,4) pin by simp
qed

lemma act_before_init:
  assumes "\<not> is_construct a" and "\<not> is_init_on h a" and "\<not> is_initialized (fst w h)"
  shows "\<not> is_initialized (fst (act target a w) h)"
proof (cases a)
  case (Construct h' ip ep cp)
  with assms(1) show ?thesis by simp
next
  case (Method h' x)
  obtain objs s where w: "w = (objs, s)" by (cases w)
  show ?thesis
  proof (cases "h' = h")
    case True
    have "\<not> is_init_call x"
      using assms(2) unfolding Method True by simp
    then have "step target x (objs h, s) = (objs h, s)"
      using assms(3) unfolding w by (simp add: step_not_initialized)
    then show ?thesis
      using assms(3) unfolding Method w True by simp
  next
    case False
    then show ?thesis
      using assms(3) unfolding Method w by simp
  qed
qed

lemma exec_before_init:
  assumes "list_all (\<lambda>a. \<not> is_construct a \<and> \<not> is_init_on h a) as"
    and "\<not> is_initialized (fst w h)"
  shows "\<not> is_initialized (fst (exec target as w) h)
     \<and> g_int_pin (snd (exec target as w)) = g_int_pin (snd w)"
  using assms
proof (induction as arbitrary: w)
  case Nil
  then show ?case by simp
next
  case (Cons a as)
  have na: "\<not> is_construct a" and ni: "\<not> is_init_on h a"
    and nas: "list_all (\<lambda>a. \<not> is_construct a \<and> \<not> is_init_on h a) as"
    using Cons.prems(1) by simp_all
  have pin: "g_int_pin (snd (act target a w)) = g_int_pin (snd w)"
    using na by (rule act_keeps_int_pin)
  have flag: "\<not> is_initialized (fst (act target a w) h)"
    using na ni Cons.prems(2) by (rule act_before_init)
  show ?case
    using Cons.IH [OF nas flag] pin by simp
qed

lemma act_Construct:
  "\<not> is_initialized (fst (act target (Construct h int_pin en_pin cs_pin) w) h)
   \<and> g_int_pin (snd (act target (Construct h int_pin en_pin cs_pin) w)) = int_pin"
  by (cases w) (simp add: SFE_CC3000_ctor_def)

subsection \<open>connect\<close>

text \<open>
  Claim C1. For every ssid, password and security type, and for every object and
  machine state (initialised or not), \<^verbatim>\<open>connect\<close> returns true, makes no call that
  leaves the file and changes neither the object nor the globals; as a step of a
  call sequence it is the identity.
\<close>

theorem connect_is_stub:
  "connect ssid password sec this s = (True, this, s)
   \<and> step target (Call_connect ssid password sec) (this, s) = (this, s)"
  by (simp add: connect_def)

subsection \<open>init\<close>

text \<open>
  The claim C2 as first stated speaks of every object constructed with an
  interrupt pin other than 2 and 3. \<^verbatim>\<open>init\<close> reads the pin from the global
  \<^verbatim>\<open>g_int_pin\<close>, which the constructor of any later object overwrites: construct
  a first object with pins 5, 7, 10, then a second with pins 3, 8, 9, and
  \<^verbatim>\<open>init\<close> on the first one takes \<^verbatim>\<open>case 3\<close>, runs the bring-up on the second
  object's pins, returns true and sets the first object's flag.
\<close>

theorem init_after_other_ctor_counterexample:
  "(5 :: uint8_t) \<noteq> 2 \<and> (5 :: uint8_t) \<noteq> 3
   \<and> init AVR_ATmega328P example_driver
        (fst (SFE_CC3000_ctor 5 7 10 power_on))
        (snd (SFE_CC3000_ctor 3 8 9 (snd (SFE_CC3000_ctor 5 7 10 power_on))))
      = (True, \<lparr>is_initialized = True\<rparr>,
         \<lparr>g_int_pin = 3, g_int_num = 1, g_en_pin = 8, g_cs_pin = 9,
          calls = bring_up_calls (snd (SFE_CC3000_ctor 3 8 9 power_on))\<rparr>)"
  by (simp add: SFE_CC3000_ctor_def power_on_def init_def init_hardware_eq bring_up_calls_def)

text \<open>
  Claim C2, amended. For an object constructed with an interrupt pin other than 2
  and 3, as long as no object is constructed after it: whatever the program did
  before, and after any method calls on this and on other objects, \<^verbatim>\<open>init\<close> on
  the object returns false, changes nothing, and its flag is still false. This
  holds on every target.
\<close>

theorem init_rejects_other_interrupt_pins:
  assumes "int_pin \<noteq> 2" and "int_pin \<noteq> 3"
    and "list_all (\<lambda>a. \<not> is_construct a) mid"
    and "w = exec target (pre @ Construct h int_pin en_pin cs_pin # mid) w0"
  shows "init target drv (fst w h) (snd w) = (False, fst w h, snd w)
     \<and> \<not> is_initialized (fst w h)"
proof -
  let ?w1 = "act target (Construct h int_pin en_pin cs_pin) (exec target pre w0)"
  have w: "w = exec target mid ?w1"
    unfolding assms(4) by (simp add: exec_append)
  have fresh: "\<not> is_initialized (fst ?w1 h)" and pin: "g_int_pin (snd ?w1) = int_pin"
    using act_Construct [of target h int_pin en_pin cs_pin "exec target pre w0"] by simp_all
  have p2: "g_int_pin (snd ?w1) \<noteq> 2" and p3: "g_int_pin (snd ?w1) \<noteq> 3"
    using pin assms(1,2) by simp_all
  have "\<not> is_initialized (fst w h) \<and> g_int_pin (snd w) = g_int_pin (snd ?w1)"
    unfolding w using assms(3) fresh p2 p3 by (rule exec_other_pin)
  then show ?thesis
    using pin assms(1,2) by (simp add: init_def)
qed

theorem init_rejects_other_interrupt_pins_witness:
  "(5 :: uint8_t) \<noteq> 2 \<and> (5 :: uint8_t) \<noteq> 3
   \<and> list_all (\<lambda>a. \<not> is_construct a)
        [Method 1 (Call_getMacAddress example_driver), Method 0 (Call_init example_driver)]
   \<and> init AVR_ATmega328P example_driver
        (fst (exec AVR_ATmega328P
               ([Construct 1 3 8 9, Method 1 (Call_init example_driver)]
                @ Construct 0 5 7 10
                # [Method 1 (Call_getMacAddress example_driver),
                   Method 0 (Call_init example_driver)])
               (no_objects, power_on)) 0)
        (snd (exec AVR_ATmega328P
               ([Construct 1 3 8 9, Method 1 (Call_init example_driver)]
                @ Construct 0 5 7 10
                # [Method 1 (Call_getMacAddress example_driver),
                   Method 0 (Call_init example_driver)])
               (no_objects, power_on)))
      = (False, \<lparr>is_initialized = False\<rparr>,
         \<lparr>g_int_pin = 5, g_int_num = 1, g_en_pin = 7, g_cs_pin = 10,
          calls = bring_up_calls (snd (SFE_CC3000_ctor 3 8 9 power_on))
                  @ [Nvmem_get_mac_address]\<rparr>)"
proof -
  have a: "(5 :: uint8_t) \<noteq> 2" and b: "(5 :: uint8_t) \<noteq> 3"
    by simp_all
  have c: "list_all (\<lambda>a. \<not> is_construct a)
        [Method 1 (Call_getMacAddress example_driver), Method 0 (Call_init example_driver)]"
    by simp
  have w: "exec AVR_ATmega328P
               ([Construct 1 3 8 9, Method 1 (Call_init example_driver)]
                @ Construct 0 5 7 10
                # [Method 1 (Call_getMacAddress example_driver),
                   Method 0 (Call_init example_driver)])
               (no_objects, power_on)
      = (no_objects(1 := \<lparr>is_initialized = True\<rparr>, 0 := \<lparr>is_initialized = False\<rparr>),
         \<lparr>g_int_pin = 5, g_int_num = 1, g_en_pin = 7, g_cs_pin = 10,
          calls = bring_up_calls (snd (SFE_CC3000_ctor 3 8 9 power_on))
                  @ [Nvmem_get_mac_address]\<rparr>)"
    by (simp add: no_objects_def power_on_def SFE_CC3000_ctor_def init_def init_hardware_eq
        bring_up_calls_def getMacAddress_def nvmem_get_mac_address_def hw_def fun_upd_twist)
  show ?thesis
    using init_rejects_other_interrupt_pins [OF a b c refl, where target = AVR_ATmega328P
        and pre = "[Construct 1 3 8 9, Method 1 (Call_init example_driver)]"
        and h = 0 and en_pin = 7 and cs_pin = 10 and ?w0.0 = "(no_objects, power_on)"
        and drv = example_driver]
    unfolding w using a b c by simp
qed

text \<open>
  Claim C3. Once a call of \<^verbatim>\<open>init\<close> has returned true, then after any further
  method calls on the object, every call of \<^verbatim>\<open>init\<close> (whatever the driver would
  answer) returns true and leaves the object and the machine as they were: the
  log of calls gains no entry, so no pin, SPI, driver or delay call is made.
\<close>

theorem init_idempotent_after_success:
  assumes "fst (init target drv this s)"
    and "c = run target xs (snd (init target drv this s))"
  shows "init target drv' (fst c) (snd c) = (True, fst c, snd c)
     \<and> calls (snd (snd (init target drv' (fst c) (snd c)))) = calls (snd c)"
proof -
  have "is_initialized (fst (snd (init target drv this s)))"
    using assms(1) by (rule init_success_initialized)
  then have "is_initialized (fst c)"
    unfolding assms(2) by (rule run_keeps_initialized)
  then show ?thesis
    by (simp add: init_when_initialized)
qed

theorem init_idempotent_after_success_witness:
  "fst (init AVR_ATmega328P example_driver (fst fresh_example) (snd fresh_example))
   \<and> init AVR_ATmega328P failing_driver
        (fst (run AVR_ATmega328P [Call_getMacAddress example_driver, Call_init failing_driver]
               ready_example))
        (snd (run AVR_ATmega328P [Call_getMacAddress example_driver, Call_init failing_driver]
               ready_example))
      = (True, \<lparr>is_initialized = True\<rparr>,
         \<lparr>g_int_pin = 2, g_int_num = 0, g_en_pin = 7, g_cs_pin = 10,
          calls = bring_up_calls (snd fresh_example) @ [Nvmem_get_mac_address]\<rparr>)"
proof -
  have c: "run AVR_ATmega328P [Call_getMacAddress example_driver, Call_init failing_driver]
             ready_example
           = (\<lparr>is_initialized = True\<rparr>,
              \<lparr>g_int_pin = 2, g_int_num = 0, g_en_pin = 7, g_cs_pin = 10,
               calls = bring_up_calls (snd fresh_example) @ [Nvmem_get_mac_address]\<rparr>)"
    by (simp add: ready_example_eq init_def getMacAddress_def nvmem_get_mac_address_def hw_def)
  show ?thesis
    using init_idempotent_after_success [OF init_fresh_example refl, where
        xs = "[Call_getMacAddress example_driver, Call_init failing_driver]"
        and drv' = failing_driver]
    unfolding ready_example_def [symmetric] c by (simp add: init_fresh_example)
qed

subsection \<open>The two queries\<close>

text \<open>
  Claim C4. While the flag is false, \<^verbatim>\<open>getFirmwareVersion\<close> and \<^verbatim>\<open>getMacAddress\<close>
  return false, store no byte, and leave the machine unchanged: the log gains no
  entry, so the driver is not called.
\<close>

theorem queries_fail_before_init:
  assumes "\<not> is_initialized this"
  shows "getFirmwareVersion drv this s = (False, [], s)
     \<and> getMacAddress drv this s = (False, [], s)"
  using assms by (simp add: getFirmwareVersion_def getMacAddress_def)

theorem queries_fail_before_init_witness:
  "\<not> is_initialized (fst fresh_example)
   \<and> getFirmwareVersion example_driver (fst fresh_example) (snd fresh_example)
       = (False, [], snd fresh_example)
   \<and> getMacAddress example_driver (fst fresh_example) (snd fresh_example)
       = (False, [], snd fresh_example)"
proof -
  have a: "\<not> is_initialized (fst fresh_example)"
    by (simp add: fresh_example_eq)
  show ?thesis
    using queries_fail_before_init [OF a, of example_driver "snd fresh_example"] a by simp
qed

text \<open>
  Claim C5. With the flag true, \<^verbatim>\<open>getFirmwareVersion\<close> returns true exactly when
  the driver's firmware-version query returns status 0, and \<^verbatim>\<open>getMacAddress\<close>
  returns true exactly when the driver's MAC-address query returns status 0.
\<close>

theorem queries_succeed_iff_status_zero:
  assumes "is_initialized this"
  shows "(fst (getFirmwareVersion drv this s) \<longleftrightarrow> sp_version_status drv = 0)
     \<and> (fst (getMacAddress drv this s) \<longleftrightarrow> mac_address_status drv = 0)"
  using assms
  by (simp add: getFirmwareVersion_def getMacAddress_def nvmem_read_sp_version_def
      nvmem_get_mac_address_def CC3000_SUCCESS_def)

theorem queries_succeed_iff_status_zero_witness:
  "is_initialized (fst ready_example)
   \<and> fst (getFirmwareVersion example_driver (fst ready_example) (snd ready_example))
   \<and> fst (getMacAddress example_driver (fst ready_example) (snd ready_example))
   \<and> \<not> fst (getFirmwareVersion failing_driver (fst ready_example) (snd ready_example))
   \<and> \<not> fst (getMacAddress failing_driver (fst ready_example) (snd ready_example))"
proof -
  have a: "is_initialized (fst ready_example)"
    by (simp add: ready_example_eq)
  show ?thesis
    using queries_succeed_iff_status_zero [OF a, of example_driver "snd ready_example"]
      queries_succeed_iff_status_zero [OF a, of failing_driver "snd ready_example"] a
    by (simp add: example_driver_def failing_driver_def)
qed

subsection \<open>The flag\<close>

text \<open>
  Claim C6. For every sequence of method calls on a newly constructed object: if
  the flag is true at the end, the sequence contains a call of \<^verbatim>\<open>init\<close> that
  started with the flag false, returned true and made the twelve calls of the
  bring-up; and from any state with the flag true, no sequence of \<^verbatim>\<open>init\<close>,
  \<^verbatim>\<open>getFirmwareVersion\<close>, \<^verbatim>\<open>getMacAddress\<close> and \<^verbatim>\<open>connect\<close> calls clears it.
\<close>

theorem is_initialized_set_once_by_init:
  "(is_initialized (fst (run target xs (SFE_CC3000_ctor int_pin en_pin cs_pin s0))) \<longrightarrow>
      (\<exists>pre drv post. xs = pre @ Call_init drv # post
         \<and> \<not> is_initialized (fst (run target pre (SFE_CC3000_ctor int_pin en_pin cs_pin s0)))
         \<and> fst (init target drv
                 (fst (run target pre (SFE_CC3000_ctor int_pin en_pin cs_pin s0)))
                 (snd (run target pre (SFE_CC3000_ctor int_pin en_pin cs_pin s0))))
         \<and> calls (snd (run target (pre @ [Call_init drv])
                          (SFE_CC3000_ctor int_pin en_pin cs_pin s0)))
             = calls (snd (run target pre (SFE_CC3000_ctor int_pin en_pin cs_pin s0)))
               @ bring_up_calls (snd (run target pre (SFE_CC3000_ctor int_pin en_pin cs_pin s0)))))
   \<and> (is_initialized this \<longrightarrow> is_initialized (fst (run target ys (this, s))))"
proof (intro conjI impI)
  let ?c0 = "SFE_CC3000_ctor int_pin en_pin cs_pin s0"
  assume ready: "is_initialized (fst (run target xs ?c0))"
  have fresh: "\<not> is_initialized (fst ?c0)"
    by (simp add: SFE_CC3000_ctor_def)
  from first_successful_init [OF fresh ready] obtain pre drv post where
    h: "xs = pre @ Call_init drv # post" "run target pre ?c0 = ?c0"
       "fst (init target drv (fst ?c0) (snd ?c0))"
    by blast
  have after: "run target (pre @ [Call_init drv]) ?c0 = snd (init target drv (fst ?c0) (snd ?c0))"
    using h(2) by (simp add: run_append SFE_CC3000_ctor_def)
  have full: "calls (snd (snd (init target drv (fst ?c0) (snd ?c0))))
      = calls (snd ?c0) @ bring_up_calls (snd ?c0)"
    using init_fresh_success [OF fresh h(3)] by simp
  have "xs = pre @ Call_init drv # post
         \<and> \<not> is_initialized (fst (run target pre ?c0))
         \<and> fst (init target drv (fst (run target pre ?c0)) (snd (run target pre ?c0)))
         \<and> calls (snd (run target (pre @ [Call_init drv]) ?c0))
             = calls (snd (run target pre ?c0)) @ bring_up_calls (snd (run target pre ?c0))"
    unfolding after using h fresh full by simp
  then show "\<exists>pre drv post. xs = pre @ Call_init drv # post
         \<and> \<not> is_initialized (fst (run target pre ?c0))
         \<and> fst (init target drv (fst (run target pre ?c0)) (snd (run target pre ?c0)))
         \<and> calls (snd (run target (pre @ [Call_init drv]) ?c0))
             = calls (snd (run target pre ?c0)) @ bring_up_calls (snd (run target pre ?c0))"
    by blast
next
  assume "is_initialized this"
  then show "is_initialized (fst (run target ys (this, s)))"
    by (simp add: run_keeps_initialized)
qed

theorem is_initialized_set_once_by_init_witness:
  "is_initialized (fst (run AVR_ATmega328P
       [Call_getMacAddress example_driver, Call_init example_driver,
        Call_connect ''anySSID'' ''anyPassword'' 0] (SFE_CC3000_ctor 2 7 10 power_on)))
   \<and> (\<exists>pre drv post.
         [Call_getMacAddress example_driver, Call_init example_driver,
          Call_connect ''anySSID'' ''anyPassword'' 0] = pre @ Call_init drv # post
         \<and> \<not> is_initialized (fst (run AVR_ATmega328P pre (SFE_CC3000_ctor 2 7 10 power_on)))
         \<and> fst (init AVR_ATmega328P drv
                 (fst (run AVR_ATmega328P pre (SFE_CC3000_ctor 2 7 10 power_on)))
                 (snd (run AVR_ATmega328P pre (SFE_CC3000_ctor 2 7 10 power_on))))
         \<and> calls (snd (run AVR_ATmega328P (pre @ [Call_init drv])
                          (SFE_CC3000_ctor 2 7 10 power_on)))
             = calls (snd (run AVR_ATmega328P pre (SFE_CC3000_ctor 2 7 10 power_on)))
               @ bring_up_calls (snd (run AVR_ATmega328P pre (SFE_CC3000_ctor 2 7 10 power_on))))
   \<and> is_initialized (fst ready_example)
   \<and> is_initialized (fst (run AVR_ATmega328P
       [Call_init failing_driver, Call_getFirmwareVersion failing_driver]
       (fst ready_example, snd ready_example)))"
proof -
  have a: "is_initialized (fst (run AVR_ATmega328P
       [Call_getMacAddress example_driver, Call_init example_driver,
        Call_connect ''anySSID'' ''anyPassword'' 0] (SFE_CC3000_ctor 2 7 10 power_on)))"
    by (simp add: SFE_CC3000_ctor_def power_on_def getMacAddress_def init_def connect_def)
  have b: "is_initialized (fst ready_example)"
    by (simp add: ready_example_eq)
  show ?thesis
    using is_initialized_set_once_by_init [where target = AVR_ATmega328P
        and xs = "[Call_getMacAddress example_driver, Call_init example_driver,
                   Call_connect ''anySSID'' ''anyPassword'' 0]"
        and int_pin = 2 and en_pin = 7 and cs_pin = 10 and ?s0.0 = power_on
        and this = "fst ready_example" and s = "snd ready_example"
        and ys = "[Call_init failing_driver, Call_getFirmwareVersion failing_driver]"] a b
    by blast
qed

subsection \<open>The bring-up sequence\<close>

text \<open>
  The claim C7 as first stated gives \<^verbatim>\<open>wlan_init\<close> seven callbacks. On the
  object of the spec's scenario the one \<^verbatim>\<open>wlan_init\<close> call of \<^verbatim>\<open>init\<close> has eight
  arguments, not seven.
\<close>

theorem wlan_init_callback_count_counterexample:
  "map length (wlan_init_args (calls (snd (snd
      (init AVR_ATmega328P example_driver (fst fresh_example) (snd fresh_example)))))) = [8]
   \<and> map length (wlan_init_args (calls (snd (snd
      (init AVR_ATmega328P example_driver (fst fresh_example) (snd fresh_example)))))) \<noteq> [7]"
  by (simp add: fresh_example_def SFE_CC3000_ctor_def power_on_def init_def init_hardware_eq
      bring_up_calls_def)

text \<open>
  Claim C7, amended. A call of \<^verbatim>\<open>init\<close> with the flag false, on a supported target
  and with interrupt pin 2 or 3, makes these calls in this order: interrupt pin
  to input, enable pin and chip-select pin to output, enable pin and chip-select
  pin low; \<^verbatim>\<open>SPI.begin\<close>, data mode \<^verbatim>\<open>SPI_MODE1\<close>, bit order \<^verbatim>\<open>MSBFIRST\<close>, clock
  divider \<^verbatim>\<open>SPI_CLOCK_DIV2\<close>; \<^verbatim>\<open>wlan_init\<close> with eight callbacks; \<^verbatim>\<open>delay(100)\<close>;
  \<^verbatim>\<open>wlan_start(0)\<close>. It returns true with the flag set, and \<^verbatim>\<open>g_int_num\<close> is 0 for
  pin 2 and 1 for pin 3.
\<close>

theorem init_bring_up_order:
  assumes "\<not> is_initialized this" and "supported_mcu target"
    and "g_int_pin s = 2 \<or> g_int_pin s = 3"
  shows "init target drv this s =
     (True, this\<lparr>is_initialized := True\<rparr>,
      s\<lparr>g_int_num := (if g_int_pin s = 2 then 0 else 1),
        calls := calls s @
          [PinMode (g_int_pin s) INPUT, PinMode (g_en_pin s) OUTPUT,
           PinMode (g_cs_pin s) OUTPUT,
           DigitalWrite (g_en_pin s) LOW, DigitalWrite (g_cs_pin s) LOW,
           SPI_begin, SPI_setDataMode SPI_MODE1, SPI_setBitOrder MSBFIRST,
           SPI_setClockDivider SPI_CLOCK_DIV2,
           Wlan_init [cc3000AsyncCallback, sendFirmwarePatch, sendDriverPatch,
                      sendBootLoaderPatch, readWlanInterruptPin, enableWlanInterrupt,
                      disableWlanInterrupt, writeWlanPin],
           Delay 100, Wlan_start 0]\<rparr>)"
  using assms by (auto simp add: init_def init_hardware_eq bring_up_calls_def)

theorem init_bring_up_order_witness:
  "\<not> is_initialized (fst fresh_example) \<and> supported_mcu AVR_ATmega328P
   \<and> (g_int_pin (snd fresh_example) = 2 \<or> g_int_pin (snd fresh_example) = 3)
   \<and> init AVR_ATmega328P example_driver (fst fresh_example) (snd fresh_example) =
     (True, \<lparr>is_initialized = True\<rparr>,
      \<lparr>g_int_pin = 2, g_int_num = 0, g_en_pin = 7, g_cs_pin = 10,
       calls =
          [PinMode 2 INPUT, PinMode 7 OUTPUT, PinMode 10 OUTPUT,
           DigitalWrite 7 LOW, DigitalWrite 10 LOW,
           SPI_begin, SPI_setDataMode SPI_MODE1, SPI_setBitOrder MSBFIRST,
           SPI_setClockDivider SPI_CLOCK_DIV2,
           Wlan_init [cc3000AsyncCallback, sendFirmwarePatch, sendDriverPatch,
                      sendBootLoaderPatch, readWlanInterruptPin, enableWlanInterrupt,
                      disableWlanInterrupt, writeWlanPin],
           Delay 100, Wlan_start 0]\<rparr>)"
proof -
  have a: "\<not> is_initialized (fst fresh_example)"
    by (simp add: fresh_example_def SFE_CC3000_ctor_def)
  have b: "supported_mcu AVR_ATmega328P"
    by simp
  have c: "g_int_pin (snd fresh_example) = 2 \<or> g_int_pin (snd fresh_example) = 3"
    by (simp add: fresh_example_def SFE_CC3000_ctor_def)
  show ?thesis
    using init_bring_up_order [OF a b c, of example_driver] a b c
    by (simp add: fresh_example_def SFE_CC3000_ctor_def power_on_def)
qed

subsection \<open>What the queries store\<close>

text \<open>
  Claim C8. On an object on which \<^verbatim>\<open>init\<close> has returned true (and after any
  further method calls): when the firmware-version query reports status 0,
  \<^verbatim>\<open>getFirmwareVersion\<close> returns true and stores exactly 2 bytes, the major number
  at index 0 and the minor at index 1; when the MAC-address query reports status
  0, \<^verbatim>\<open>getMacAddress\<close> returns true and stores exactly 6 bytes. The byte counts
  are those of the driver's queries as the spec describes them.
\<close>

theorem query_results_have_2_and_6_bytes:
  assumes "fst (init target drv0 this0 s0)"
    and "c = run target xs (snd (init target drv0 this0 s0))"
  shows "(sp_version_status drv = 0 \<longrightarrow>
            fst (getFirmwareVersion drv (fst c) (snd c))
          \<and> fst (snd (getFirmwareVersion drv (fst c) (snd c)))
              = [sp_version_major drv, sp_version_minor drv]
          \<and> length (fst (snd (getFirmwareVersion drv (fst c) (snd c)))) = 2)
     \<and> (mac_address_status drv = 0 \<longrightarrow>
            fst (getMacAddress drv (fst c) (snd c))
          \<and> length (fst (snd (getMacAddress drv (fst c) (snd c)))) = 6)"
proof -
  have "is_initialized (fst (snd (init target drv0 this0 s0)))"
    using assms(1) by (rule init_success_initialized)
  then have "is_initialized (fst c)"
    unfolding assms(2) by (rule run_keeps_initialized)
  then show ?thesis
    by (simp add: getFirmwareVersion_def getMacAddress_def nvmem_read_sp_version_def
        nvmem_get_mac_address_def CC3000_SUCCESS_def)
qed

theorem query_results_have_2_and_6_bytes_witness:
  "fst (init AVR_ATmega328P example_driver (fst fresh_example) (snd fresh_example))
   \<and> sp_version_status example_driver = 0 \<and> mac_address_status example_driver = 0
   \<and> getFirmwareVersion example_driver
        (fst (run AVR_ATmega328P [Call_connect ''anySSID'' ''anyPassword'' 0] ready_example))
        (snd (run AVR_ATmega328P [Call_connect ''anySSID'' ''anyPassword'' 0] ready_example))
      = (True, [1, 24], hw Nvmem_read_sp_version (snd ready_example))
   \<and> getMacAddress example_driver
        (fst (run AVR_ATmega328P [Call_connect ''anySSID'' ''anyPassword'' 0] ready_example))
        (snd (run AVR_ATmega328P [Call_connect ''anySSID'' ''anyPassword'' 0] ready_example))
      = (True, [8, 9, 10, 11, 12, 13], hw Nvmem_get_mac_address (snd ready_example))"
proof -
  have c: "run AVR_ATmega328P [Call_connect ''anySSID'' ''anyPassword'' 0] ready_example
      = ready_example"
    by (simp add: ready_example_eq connect_def)
  have st: "sp_version_status example_driver = 0" "mac_address_status example_driver = 0"
    by (simp_all add: example_driver_def)
  have six: "[0..<6] = [0, 1, 2, 3, 4, 5]"
    by (simp add: upt_rec)
  have fw: "fst (snd (getFirmwareVersion example_driver (fst ready_example) (snd ready_example)))
      = [1, 24]"
    by (simp add: ready_example_eq getFirmwareVersion_def nvmem_read_sp_version_def
        example_driver_def)
  have mac: "getMacAddress example_driver (fst ready_example) (snd ready_example)
      = (True, [8, 9, 10, 11, 12, 13], hw Nvmem_get_mac_address (snd ready_example))"
    by (simp add: ready_example_eq getMacAddress_def nvmem_get_mac_address_def
        example_driver_def CC3000_SUCCESS_def six)
  have fw': "snd (snd (getFirmwareVersion example_driver (fst ready_example) (snd ready_example)))
      = hw Nvmem_read_sp_version (snd ready_example)"
    by (simp add: ready_example_eq getFirmwareVersion_def nvmem_read_sp_version_def)
  show ?thesis
    using query_results_have_2_and_6_bytes [OF init_fresh_example refl, where
        xs = "[Call_connect ''anySSID'' ''anyPassword'' 0]" and drv = example_driver]
    unfolding ready_example_def [symmetric] c
    using st fw fw' mac init_fresh_example
    by (simp add: prod_eq_iff)
qed

subsection \<open>Success and failure of init\<close>

text \<open>
  The claim C9 as first stated speaks of every object constructed with interrupt
  pin 2 or 3. Construct a first object with pins 2, 7, 10, then a second with
  pins 5, 8, 9: \<^verbatim>\<open>g_int_pin\<close> is now 5, and the first \<^verbatim>\<open>init\<close> on the first object
  takes the \<^verbatim>\<open>default\<close> case and returns false, on a supported target.
\<close>

theorem first_init_fails_after_other_ctor_counterexample:
  "supported_mcu AVR_ATmega328P \<and> ((2 :: uint8_t) = 2 \<or> (2 :: uint8_t) = 3)
   \<and> init AVR_ATmega328P example_driver
        (fst (SFE_CC3000_ctor 2 7 10 power_on))
        (snd (SFE_CC3000_ctor 5 8 9 (snd (SFE_CC3000_ctor 2 7 10 power_on))))
      = (False, \<lparr>is_initialized = False\<rparr>,
         \<lparr>g_int_pin = 5, g_int_num = 0, g_en_pin = 8, g_cs_pin = 9, calls = []\<rparr>)"
  by (simp add: SFE_CC3000_ctor_def power_on_def init_def)

text \<open>
  Claim C9, amended. On a supported target, for an object constructed with
  interrupt pin 2 or 3, as long as no object is constructed after it: whatever
  the program did before, and after any method calls on other objects and any
  calls of the other three methods on this one, the first call of \<^verbatim>\<open>init\<close> on
  the object returns true and leaves its flag true, for every driver: what
  \<^verbatim>\<open>wlan_init\<close> and \<^verbatim>\<open>wlan_start\<close> report is never read.
\<close>

theorem first_init_succeeds_on_allowed_pin:
  assumes "supported_mcu target" and "int_pin = 2 \<or> int_pin = 3"
    and "list_all (\<lambda>a. \<not> is_construct a \<and> \<not> is_init_on h a) mid"
    and "w = exec target (pre @ Construct h int_pin en_pin cs_pin # mid) w0"
  shows "fst (init target drv (fst w h) (snd w))
     \<and> is_initialized (fst (snd (init target drv (fst w h) (snd w))))"
proof -
  let ?w1 = "act target (Construct h int_pin en_pin cs_pin) (exec target pre w0)"
  have w: "w = exec target mid ?w1"
    unfolding assms(4) by (simp add: exec_append)
  have fresh: "\<not> is_initialized (fst ?w1 h)" and pin: "g_int_pin (snd ?w1) = int_pin"
    using act_Construct [of target h int_pin en_pin cs_pin "exec target pre w0"] by simp_all
  have "\<not> is_initialized (fst w h) \<and> g_int_pin (snd w) = g_int_pin (snd ?w1)"
    unfolding w using assms(3) fresh by (rule exec_before_init)
  then show ?thesis
    using pin assms(1,2) by (auto simp add: init_def)
qed

theorem first_init_succeeds_on_allowed_pin_witness:
  "supported_mcu AVR_ATmega328P \<and> ((2 :: uint8_t) = 2 \<or> (2 :: uint8_t) = 3)
   \<and> list_all (\<lambda>a. \<not> is_construct a \<and> \<not> is_init_on 0 a)
        [Method 1 (Call_init failing_driver), Method 0 (Call_getFirmwareVersion failing_driver),
         Method 1 (Call_connect ''anySSID'' ''anyPassword'' 0)]
   \<and> init AVR_ATmega328P failing_driver
        (fst (exec AVR_ATmega328P
               ([Construct 1 5 8 9]
                @ Construct 0 2 7 10
                # [Method 1 (Call_init failing_driver),
                   Method 0 (Call_getFirmwareVersion failing_driver),
                   Method 1 (Call_connect ''anySSID'' ''anyPassword'' 0)])
               (no_objects, power_on)) 0)
        (snd (exec AVR_ATmega328P
               ([Construct 1 5 8 9]
                @ Construct 0 2 7 10
                # [Method 1 (Call_init failing_driver),
                   Method 0 (Call_getFirmwareVersion failing_driver),
                   Method 1 (Call_connect ''anySSID'' ''anyPassword'' 0)])
               (no_objects, power_on)))
      = (True, \<lparr>is_initialized = True\<rparr>,
         \<lparr>g_int_pin = 2, g_int_num = 0, g_en_pin = 7, g_cs_pin = 10,
          calls = bring_up_calls (snd fresh_example) @ bring_up_calls (snd fresh_example)\<rparr>)"
proof -
  have a: "supported_mcu AVR_ATmega328P"
    by simp
  have b: "(2 :: uint8_t) = 2 \<or> (2 :: uint8_t) = 3"
    by simp
  have c: "list_all (\<lambda>a. \<not> is_construct a \<and> \<not> is_init_on 0 a)
        [Method 1 (Call_init failing_driver), Method 0 (Call_getFirmwareVersion failing_driver),
         Method 1 (Call_connect ''anySSID'' ''anyPassword'' 0)]"
    by simp
  have w: "exec AVR_ATmega328P
               ([Construct 1 5 8 9]
                @ Construct 0 2 7 10
                # [Method 1 (Call_init failing_driver),
                   Method 0 (Call_getFirmwareVersion failing_driver),
                   Method 1 (Call_connect ''anySSID'' ''anyPassword'' 0)])
               (no_objects, power_on)
      = (no_objects(1 := \<lparr>is_initialized = True\<rparr>, 0 := \<lparr>is_initialized = False\<rparr>),
         \<lparr>g_int_pin = 2, g_int_num = 0, g_en_pin = 7, g_cs_pin = 10,
          calls = bring_up_calls (snd fresh_example)\<rparr>)"
    by (simp add: no_objects_def power_on_def SFE_CC3000_ctor_def init_def init_hardware_eq
        bring_up_calls_def getFirmwareVersion_def connect_def fresh_example_eq fun_upd_twist)
  have r: "init AVR_ATmega328P failing_driver \<lparr>is_initialized = False\<rparr>
         \<lparr>g_int_pin = 2, g_int_num = 0, g_en_pin = 7, g_cs_pin = 10,
          calls = bring_up_calls (snd fresh_example)\<rparr>
      = (True, \<lparr>is_initialized = True\<rparr>,
         \<lparr>g_int_pin = 2, g_int_num = 0, g_en_pin = 7, g_cs_pin = 10,
          calls = bring_up_calls (snd fresh_example) @ bring_up_calls (snd fresh_example)\<rparr>)"
    by (simp add: init_def init_hardware_eq bring_up_calls_def fresh_example_eq)
  show ?thesis
    using first_init_succeeds_on_allowed_pin [OF a b c refl, where
        pre = "[Construct 1 5 8 9]"
        and en_pin = 7 and cs_pin = 10 and ?w0.0 = "(no_objects, power_on)"
        and drv = failing_driver]
    unfolding w using a b c r by simp
qed

text \<open>
  Claim C10. Whenever \<^verbatim>\<open>init\<close> returns false, the object and the machine are
  exactly as before the call: no entry is added to the log (no pin mode, pin
  write, SPI, driver or delay call), the globals and the flag are unchanged. It
  returns false only with the flag false, on an unsupported target or with an
  interrupt pin other than 2 and 3.
\<close>

theorem failed_init_changes_nothing:
  assumes "\<not> fst (init target drv this s)"
  shows "init target drv this s = (False, this, s)
     \<and> \<not> is_initialized this
     \<and> (\<not> supported_mcu target \<or> (g_int_pin s \<noteq> 2 \<and> g_int_pin s \<noteq> 3))"
  using assms by (simp add: init_def split: if_splits)

theorem failed_init_changes_nothing_witness:
  "\<not> fst (init Other_mcu example_driver (fst fresh_example) (snd fresh_example))
   \<and> init Other_mcu example_driver (fst fresh_example) (snd fresh_example)
      = (False, fst fresh_example, snd fresh_example)
   \<and> \<not> fst (init AVR_ATmega168 example_driver
             (fst (SFE_CC3000_ctor 5 7 10 power_on)) (snd (SFE_CC3000_ctor 5 7 10 power_on)))
   \<and> init AVR_ATmega168 example_driver
        (fst (SFE_CC3000_ctor 5 7 10 power_on)) (snd (SFE_CC3000_ctor 5 7 10 power_on))
      = (False, fst (SFE_CC3000_ctor 5 7 10 power_on), snd (SFE_CC3000_ctor 5 7 10 power_on))"
proof -
  have a: "\<not> fst (init Other_mcu example_driver (fst fresh_example) (snd fresh_example))"
    by (simp add: init_def fresh_example_eq)
  have b: "\<not> fst (init AVR_ATmega168 example_driver
             (fst (SFE_CC3000_ctor 5 7 10 power_on)) (snd (SFE_CC3000_ctor 5 7 10 power_on)))"
    by (simp add: init_def SFE_CC3000_ctor_def)
  show ?thesis
    using failed_init_changes_nothing [OF a] failed_init_changes_nothing [OF b] a b
    by blast
qed

end
